theory Spec2Isabelle
  imports Main "HOL-Library.Sublist"
begin

section \<open>Python values\<close>

text \<open>
  A Python \<open>str\<close> is a sequence of Unicode code points: \<open>len\<close>, slicing and
  truthiness count code points, not bytes. It is modelled as the list of its code
  points. \<open>asc\<close> embeds an ASCII literal; the Japanese literals of the source are
  written out as code points.
\<close>

type_synonym pystr = "nat list"

definition asc :: "string \<Rightarrow> pystr" where
  "asc s = map of_char s"

text \<open>\<open>sep.join(xs)\<close>.\<close>

fun join :: "pystr \<Rightarrow> pystr list \<Rightarrow> pystr" where
  "join sep [] = []"
| "join sep [x] = x"
| "join sep (x # y # ys) = x @ sep @ join sep (y # ys)"

text \<open>Decimal rendering, as \<open>str(n)\<close> and an f-string do for an \<open>int\<close>.\<close>

fun show_nat :: "nat \<Rightarrow> pystr" where
  "show_nat n = (if n < 10 then [48 + n] else show_nat (n div 10) @ [48 + n mod 10])"

declare show_nat.simps [simp del]

definition show_int :: "int \<Rightarrow> pystr" where
  "show_int i = (if i < 0 then 45 # show_nat (nat (- i)) else show_nat (nat i))"

text \<open>
  An exception value: the name of its class and what \<open>str(e)\<close> gives. Every
  exception of the model is an instance of \<open>Exception\<close>.
\<close>

datatype py_exception = PyExc (exc_class: string) (exc_str: pystr)

text \<open>
  A cell of a sheet row as \<open>get_all_records\<close> returns it: a \<open>str\<close>, or an \<open>int\<close>
  for a cell that reads as a number (cells that read as floats are left out of the
  model). \<open>fstr\<close> is the text an f-string puts for the value.
\<close>

datatype cell = CStr pystr | CInt int

fun fstr :: "cell \<Rightarrow> pystr" where
  "fstr (CStr s) = s"
| "fstr (CInt i) = show_int i"

text \<open>A sheet row and a Slack message record are dicts keyed by strings.\<close>

type_synonym row = "pystr \<rightharpoonup> cell"
type_synonym message = "pystr \<rightharpoonup> pystr"

text \<open>\<open>d.get(k, default)\<close>.\<close>

definition dict_get :: "('k \<rightharpoonup> 'v) \<Rightarrow> 'k \<Rightarrow> 'v \<Rightarrow> 'v" where
  "dict_get d k dflt = (case d k of None \<Rightarrow> dflt | Some v \<Rightarrow> v)"

section \<open>Dates and times\<close>

text \<open>
  A naive \<open>datetime.datetime\<close>, field by field. \<open>replace(hour=.., minute=..,
  second=..)\<close> is a record update of exactly the fields it names.
\<close>

record datetime =
  year :: nat
  month :: nat
  day :: nat
  hour :: nat
  minute :: nat
  second :: nat
  microsecond :: nat

definition is_leap :: "nat \<Rightarrow> bool" where
  "is_leap y = (y mod 4 = 0 \<and> (y mod 100 \<noteq> 0 \<or> y mod 400 = 0))"

definition days_in_month :: "nat \<Rightarrow> nat \<Rightarrow> nat" where
  "days_in_month y m =
     (if m = 2 then (if is_leap y then 29 else 28)
      else if m = 4 \<or> m = 6 \<or> m = 9 \<or> m = 11 then 30 else 31)"

text \<open>
  \<open>d - datetime.timedelta(days=1)\<close>: the same time of day on the previous calendar
  day. On 0001-01-01 there is no previous day and Python raises \<open>OverflowError\<close>.
\<close>

definition sub_one_day :: "datetime \<Rightarrow> py_exception + datetime" where
  "sub_one_day d =
     (if 1 < day d then Inr (d\<lparr>day := day d - 1\<rparr>)
      else if 1 < month d then
        Inr (d\<lparr>month := month d - 1, day := days_in_month (year d) (month d - 1)\<rparr>)
      else if 1 < year d then Inr (d\<lparr>year := year d - 1, month := 12, day := 31\<rparr>)
      else Inl (PyExc ''OverflowError'' (asc ''date value out of range'')))"

text \<open>
  \<open>d.strftime('%Y-%m-%d')\<close> as CPython gives it through the C library on Linux: \<open>%Y\<close> is
  the year in decimal without padding (so four digits from the year 1000 on, and
  \<open>999\<close> for the year 999), \<open>%m\<close> and \<open>%d\<close> are two digits.
\<close>

definition digits2 :: "nat \<Rightarrow> pystr" where
  "digits2 n = [48 + n div 10 mod 10, 48 + n mod 10]"

definition strftime_Ymd :: "datetime \<Rightarrow> pystr" where
  "strftime_Ymd d = show_nat (year d) @ asc ''-'' @ digits2 (month d) @ asc ''-'' @ digits2 (day d)"

section \<open>The outside world\<close>

text \<open>
  The program is a sequence of calls to four services, a clock and the console. A run
  is modelled by the trace of these effects, in program order, and the services by
  what they answer: every answer may depend on the arguments of the call and on the
  moment of the call, which is the number of effects before it. A call that raises
  answers \<open>Inl\<close> of the exception.

  \<^item> \<open>SheetsGetAllRecords\<close>: \<open>gc_sheets.open_by_key(GOOGLE_SHEET_ID).sheet1.get_all_records()\<close>.
  \<^item> \<open>SlackConversationsHistory channel oldest latest\<close>: \<open>slack.conversations_history\<close>.
    The request carries \<open>str(d.timestamp())\<close> of the two datetimes, a conversion that
    depends on the datetime and the time zone of the process only; the trace records
    the datetimes themselves. The answer is \<open>result["messages"]\<close>.
  \<^item> \<open>GeminiGenerateContent prompt\<close>: \<open>model.generate_content(prompt)\<close>; the answer is
    \<open>response.text\<close>.
  \<^item> \<open>DocsCreate title\<close>: \<open>documents().create(body={'title': title}).execute()\<close>; the
    answer is \<open>doc['documentId']\<close>.
  \<^item> \<open>DocsBatchUpdate doc_id summary\<close>: the \<open>insertText\<close> request at index 1.
  \<^item> \<open>DriveFilesGet doc_id\<close>: \<open>files().get(fileId=doc_id, fields='parents')\<close>; the
    answer is \<open>file.get('parents')\<close>.
  \<^item> \<open>DriveFilesUpdate doc_id add_parents remove_parents\<close>: the move.
\<close>

datatype event =
    Print pystr
  | SheetsGetAllRecords
  | SlackConversationsHistory cell datetime datetime
  | GeminiGenerateContent pystr
  | DocsCreate pystr
  | DocsBatchUpdate pystr pystr
  | DriveFilesGet pystr
  | DriveFilesUpdate pystr pystr pystr

record world =
  now :: "nat \<Rightarrow> datetime"
  get_all_records :: "nat \<Rightarrow> py_exception + row list"
  conversations_history :: "nat \<Rightarrow> cell \<Rightarrow> datetime \<Rightarrow> datetime \<Rightarrow> py_exception + message list"
  generate_content :: "nat \<Rightarrow> pystr \<Rightarrow> py_exception + pystr"
  documents_create :: "nat \<Rightarrow> pystr \<Rightarrow> py_exception + pystr"
  documents_batchUpdate :: "nat \<Rightarrow> pystr \<Rightarrow> pystr \<Rightarrow> py_exception + unit"
  files_get :: "nat \<Rightarrow> pystr \<Rightarrow> py_exception + pystr list"
  files_update :: "nat \<Rightarrow> pystr \<Rightarrow> pystr \<Rightarrow> pystr \<Rightarrow> py_exception + unit"
  DRIVE_FOLDER_ID :: pystr

section \<open>String constants of the source\<close>

text \<open>The sheet's column headers for the project name and the Slack channel id.\<close>

definition key_project_name :: pystr where
  "key_project_name = [12503, 12525, 12472, 12455, 12463, 12488, 21517]"

definition key_channel_id :: pystr where
  "key_channel_id = asc ''Slack'' @ [12481, 12515, 12531, 12493, 12523] @ asc ''ID''"

text \<open>The 18 characters \<open>summarize_text\<close> returns for no text: "there were no messages yesterday."\<close>

definition placeholder :: pystr where
  "placeholder =
     [26152, 26085, 12398, 12513, 12483, 12475, 12540, 12472, 12399, 12354, 12426, 12414,
      12379, 12435, 12391, 12375, 12383, 12290]"

text \<open>
  The prompt's f-string, cut at its two holes: up to \<open>{project_name}\<close>, from there to
  \<open>{text[:20000]}\<close>, and the rest (a newline and the indentation of the closing quotes).
\<close>

definition prompt_head :: pystr where
  "prompt_head =
     [10, 32, 32, 32, 32, 12354, 12394, 12383, 12399, 20778, 31168, 12394, 12503, 12525, 12472,
      12455, 12463, 12488, 12510, 12493, 12540, 12472, 12515, 12540, 12391, 12377, 12290, 10,
      32, 32, 32, 32, 20197, 19979, 12398, 83, 108, 97, 99, 107, 12525, 12464, 65288, 12503,
      12525, 12472, 12455, 12463, 12488, 58, 32]"

definition prompt_mid :: pystr where
  "prompt_mid =
     [65289, 12363, 12425, 12289, 26152, 26085, 12398, 21205, 12365, 12434, 25226, 25569,
      12391, 12365, 12427, 35696, 20107, 37682, 12469, 12510, 12522, 12434, 20316, 25104,
      12375, 12390, 12367, 12384, 12373, 12356, 12290, 10, 32, 32, 32, 32, 10, 32, 32, 32, 32,
      12304, 35201, 20214, 12305, 10, 32, 32, 32, 32, 49, 46, 32, 12300, 27770, 23450, 20107,
      38917, 12301, 12392, 12300, 12381, 12398, 32076, 32239, 65288, 35504, 12364, 12394,
      12380, 12381, 12358, 12375, 12383, 12363, 65289, 12301, 12434, 26126, 30906, 12395,
      12290, 10, 32, 32, 32, 32, 50, 46, 32, 12493, 12463, 12473, 12488, 12450, 12463, 12471,
      12519, 12531, 12420, 35506, 38988, 12364, 12354, 12428, 12400, 35352, 36617, 12290, 10,
      32, 32, 32, 32, 51, 46, 32, 38609, 35527, 12399, 38500, 22806, 12290, 10, 32, 32, 32, 32,
      52, 46, 32, 71, 111, 111, 103, 108, 101, 12489, 12461, 12517, 12513, 12531, 12488, 29992,
      12398, 12383, 12417, 12289, 77, 97, 114, 107, 100, 111, 119, 110, 12399, 20351, 12431,
      12378, 12289, 35211, 20986, 12375, 12399, 12304, 35211, 20986, 12375, 12305, 12398,
      12424, 12358, 12395, 38533, 20184, 12365, 25324, 24359, 12391, 34920, 29694, 12290, 10,
      32, 32, 32, 32, 10, 32, 32, 32, 32, 12304, 12525, 12464, 12305, 10, 32, 32, 32, 32]"

definition prompt_tail :: pystr where
  "prompt_tail = [10, 32, 32, 32, 32]"

text \<open>The title's suffix, two characters: "daily report".\<close>

definition title_suffix :: pystr where
  "title_suffix = [26085, 22577]"

section \<open>The program\<close>

text \<open>
  Every function takes the trace so far and returns its result, or the exception it
  raises, with the trace extended by its own effects.
\<close>

type_synonym 'a io = "event list \<Rightarrow> (py_exception + 'a) \<times> event list"

text \<open>Truthiness of a value that is \<open>None\<close> or a \<open>str\<close>.\<close>

definition truthy :: "pystr option \<Rightarrow> bool" where
  "truthy x = (case x of None \<Rightarrow> False | Some s \<Rightarrow> s \<noteq> [])"

text \<open>\<open>get_configs\<close>: the rows of the sheet whose \<open>Status\<close> equals \<open>'Active'\<close>.\<close>

definition get_configs :: "world \<Rightarrow> row list io" where
  "get_configs w tr =
     (let tr1 = tr @ [Print (asc ''Reading config from Google Sheet...'')] in
      case get_all_records w (length tr1) of
        Inl e \<Rightarrow> (Inl e, tr1 @ [SheetsGetAllRecords])
      | Inr rows \<Rightarrow>
          (Inr [row. row \<leftarrow> rows, row (asc ''Status'') = Some (CStr (asc ''Active''))],
           tr1 @ [SheetsGetAllRecords]))"

text \<open>
  The loop of \<open>get_yesterday_messages\<close> over \<open>messages[::-1]\<close>, with \<open>text_data\<close> as
  the accumulator that \<open>append\<close> extends.
\<close>

fun collect_text_data :: "message list \<Rightarrow> pystr list \<Rightarrow> pystr list" where
  "collect_text_data [] text_data = text_data"
| "collect_text_data (m # ms) text_data =
     (let user = dict_get m (asc ''user'') (asc ''Unknown'');
          txt = dict_get m (asc ''text'') []
      in if txt \<noteq> []
         then collect_text_data ms (text_data @ [asc ''User('' @ user @ asc ''): '' @ txt])
         else collect_text_data ms text_data)"

text \<open>
  \<open>get_yesterday_messages\<close>. The clock is read and the window computed before the
  \<open>try\<close>; the \<open>except Exception\<close> covers the request and the loop.
\<close>

definition get_yesterday_messages :: "world \<Rightarrow> cell \<Rightarrow> pystr option io" where
  "get_yesterday_messages w channel_id tr =
     (let today = now w (length tr) in
      case sub_one_day today of
        Inl e \<Rightarrow> (Inl e, tr)
      | Inr yesterday \<Rightarrow>
          let oldest = yesterday\<lparr>hour := 0, minute := 0, second := 0\<rparr>;
              latest = yesterday\<lparr>hour := 23, minute := 59, second := 59\<rparr>;
              tr1 = tr @ [SlackConversationsHistory channel_id oldest latest]
          in case conversations_history w (length tr) channel_id oldest latest of
               Inl e \<Rightarrow> (Inr None, tr1 @ [Print (asc ''Error fetching Slack: '' @ exc_str e)])
             | Inr messages \<Rightarrow>
                 if messages = [] then (Inr None, tr1)
                 else (Inr (Some (join [10] (collect_text_data (rev messages) []))), tr1))"

text \<open>\<open>summarize_text\<close>; \<open>text\<close> is \<open>None\<close> or a \<open>str\<close>.\<close>

definition summarize_text :: "world \<Rightarrow> pystr option \<Rightarrow> cell \<Rightarrow> pystr io" where
  "summarize_text w txt project_name tr =
     (case txt of
        None \<Rightarrow> (Inr placeholder, tr)
      | Some s \<Rightarrow>
          if s = [] then (Inr placeholder, tr)
          else
            let prompt = prompt_head @ fstr project_name @ prompt_mid @ take 20000 s @ prompt_tail
            in case generate_content w (length tr) prompt of
                 Inl e \<Rightarrow> (Inl e, tr @ [GeminiGenerateContent prompt])
               | Inr response_text \<Rightarrow> (Inr response_text, tr @ [GeminiGenerateContent prompt]))"

text \<open>\<open>create_google_doc\<close>: the title, then create, write, read the parents, move.\<close>

definition create_google_doc :: "world \<Rightarrow> cell \<Rightarrow> pystr \<Rightarrow> unit io" where
  "create_google_doc w project_name summary tr =
     (case sub_one_day (now w (length tr)) of
        Inl e \<Rightarrow> (Inl e, tr)
      | Inr yesterday \<Rightarrow>
          let yesterday_str = strftime_Ymd yesterday;
              doc_title = yesterday_str @ asc ''_'' @ fstr project_name @ asc ''_'' @ title_suffix;
              tr1 = tr @ [DocsCreate doc_title]
          in case documents_create w (length tr) doc_title of
               Inl e \<Rightarrow> (Inl e, tr1)
             | Inr doc_id \<Rightarrow>
                 let tr2 = tr1 @ [Print (asc ''Created Doc: '' @ doc_title)];
                     tr3 = tr2 @ [DocsBatchUpdate doc_id summary]
                 in case documents_batchUpdate w (length tr2) doc_id summary of
                      Inl e \<Rightarrow> (Inl e, tr3)
                    | Inr _ \<Rightarrow>
                        let tr4 = tr3 @ [DriveFilesGet doc_id]
                        in case files_get w (length tr3) doc_id of
                             Inl e \<Rightarrow> (Inl e, tr4)
                           | Inr parents \<Rightarrow>
                               let previous_parents = join (asc '','') parents;
                                   tr5 = tr4 @ [DriveFilesUpdate doc_id (DRIVE_FOLDER_ID w) previous_parents]
                               in case files_update w (length tr4) doc_id (DRIVE_FOLDER_ID w) previous_parents of
                                    Inl e \<Rightarrow> (Inl e, tr5)
                                  | Inr _ \<Rightarrow> (Inr (), tr5 @ [Print (asc ''Moved to folder.'')]))"

text \<open>
  The body of the loop of \<open>main\<close> for one config. A missing column raises
  \<open>KeyError\<close>, whose \<open>str\<close> is the key in quotes.
\<close>

definition key_error :: "pystr \<Rightarrow> py_exception" where
  "key_error k = PyExc ''KeyError'' ([39] @ k @ [39])"

definition main_loop_body :: "world \<Rightarrow> row \<Rightarrow> unit io" where
  "main_loop_body w config tr =
     (case config key_project_name of
        None \<Rightarrow> (Inl (key_error key_project_name), tr)
      | Some project_name \<Rightarrow>
          (case config key_channel_id of
             None \<Rightarrow> (Inl (key_error key_channel_id), tr)
           | Some channel_id \<Rightarrow>
               let tr1 = tr @ [Print (asc ''--- Processing: '' @ fstr project_name @ asc '' ---'')]
               in case get_yesterday_messages w channel_id tr1 of
                    (Inl e, tr2) \<Rightarrow> (Inl e, tr2)
                  | (Inr txt, tr2) \<Rightarrow>
                      if truthy txt then
                        let tr3 = tr2 @ [Print (asc ''Summarizing with Gemini...'')]
                        in case summarize_text w txt project_name tr3 of
                             (Inl e, tr4) \<Rightarrow> (Inl e, tr4)
                           | (Inr summary, tr4) \<Rightarrow> create_google_doc w project_name summary tr4
                      else (Inr (), tr2 @ [Print (asc ''No messages.'')])))"

text \<open>The \<open>for\<close> loop: an exception of the body leaves the loop and the run.\<close>

fun main_loop :: "world \<Rightarrow> row list \<Rightarrow> unit io" where
  "main_loop w [] tr = (Inr (), tr)"
| "main_loop w (config # configs) tr =
     (case main_loop_body w config tr of
        (Inl e, tr') \<Rightarrow> (Inl e, tr')
      | (Inr _, tr') \<Rightarrow> main_loop w configs tr')"

definition main :: "world \<Rightarrow> (py_exception + unit) \<times> event list" where
  "main w =
     (case get_configs w [] of
        (Inl e, tr1) \<Rightarrow> (Inl e, tr1)
      | (Inr configs, tr1) \<Rightarrow>
          main_loop w configs
            (tr1 @ [Print (asc ''Found '' @ show_nat (length configs) @ asc '' active projects.'')]))"

section \<open>Reading a trace\<close>

text \<open>
  The titles of the create calls a trace issues (a document is created when the
  service answers the call), its inference calls, and its calls to the document and
  storage services.
\<close>

fun docs_created :: "event list \<Rightarrow> pystr list" where
  "docs_created [] = []"
| "docs_created (DocsCreate title # es) = title # docs_created es"
| "docs_created (_ # es) = docs_created es"

fun is_publisher_op :: "event \<Rightarrow> bool" where
  "is_publisher_op (DocsCreate _) = True"
| "is_publisher_op (DocsBatchUpdate _ _) = True"
| "is_publisher_op (DriveFilesGet _) = True"
| "is_publisher_op (DriveFilesUpdate _ _ _) = True"
| "is_publisher_op _ = False"

definition publisher_ops :: "event list \<Rightarrow> event list" where
  "publisher_ops tr = filter is_publisher_op tr"

fun is_inference_call :: "event \<Rightarrow> bool" where
  "is_inference_call (GeminiGenerateContent _) = True"
| "is_inference_call _ = False"

definition inference_calls :: "event list \<Rightarrow> event list" where
  "inference_calls tr = filter is_inference_call tr"

section \<open>The specification's words\<close>

text \<open>
  The transcript as the specification describes it: the records in reverse order of
  the answer, those with a non-empty text only, each as \<open>User(<id>): <text>\<close>, joined by
  newlines. It is compared with the loop of the source below.
\<close>

definition has_text :: "message \<Rightarrow> bool" where
  "has_text m = (dict_get m (asc ''text'') [] \<noteq> [])"

definition format_line :: "message \<Rightarrow> pystr" where
  "format_line m =
     asc ''User('' @ dict_get m (asc ''user'') (asc ''Unknown'') @ asc ''): '' @ dict_get m (asc ''text'') []"

definition transcript_spec :: "message list \<Rightarrow> pystr" where
  "transcript_spec messages = join [10] (map format_line (filter has_text (rev messages)))"





text \<open>A row is active when its status field equals the sentinel.\<close>

definition is_active :: "row \<Rightarrow> bool" where
  "is_active r = (r (asc ''Status'') = Some (CStr (asc ''Active'')))"

section \<open>Names for parts of a run\<close>

text \<open>The window of a request for the day \<open>yesterday\<close>, as the source computes it.\<close>

definition window_oldest :: "datetime \<Rightarrow> datetime" where
  "window_oldest yesterday = yesterday\<lparr>hour := 0, minute := 0, second := 0\<rparr>"

definition window_latest :: "datetime \<Rightarrow> datetime" where
  "window_latest yesterday = yesterday\<lparr>hour := 23, minute := 59, second := 59\<rparr>"

text \<open>The clock never reads 0001-01-01, the one date with no previous day.\<close>

definition clock_ok :: "world \<Rightarrow> bool" where
  "clock_ok w = (\<forall>n. \<exists>y. sub_one_day (now w n) = Inr y)"

text \<open>The lines the loop body prints.\<close>

definition processing_line :: "cell \<Rightarrow> event" where
  "processing_line project_name = Print (asc ''--- Processing: '' @ fstr project_name @ asc '' ---'')"

definition summarizing_line :: event where
  "summarizing_line = Print (asc ''Summarizing with Gemini...'')"

definition no_messages_line :: event where
  "no_messages_line = Print (asc ''No messages.'')"

definition prompt_of :: "cell \<Rightarrow> pystr \<Rightarrow> pystr" where
  "prompt_of project_name s = prompt_head @ fstr project_name @ prompt_mid @ take 20000 s @ prompt_tail"

section \<open>A concrete world\<close>

text \<open>
  One active project \<open>Alpha\<close> on channel \<open>C1\<close>, read on 2024-05-02 at 10:30:15.250000.
  Slack answers newest first: a message with no text, then \<open>bye\<close> of \<open>U2\<close>, then \<open>hi\<close>
  of a record without a user. Every service succeeds.
\<close>

definition demo_now :: datetime where
  "demo_now = \<lparr>year = 2024, month = 5, day = 2, hour = 10, minute = 30, second = 15, microsecond = 250000\<rparr>"

definition demo_yesterday :: datetime where
  "demo_yesterday = \<lparr>year = 2024, month = 5, day = 1, hour = 10, minute = 30, second = 15, microsecond = 250000\<rparr>"

definition demo_config :: row where
  "demo_config = [asc ''Status'' \<mapsto> CStr (asc ''Active''), key_channel_id \<mapsto> CStr (asc ''C1''),
                  key_project_name \<mapsto> CStr (asc ''Alpha'')]"

definition demo_paused :: row where
  "demo_paused = [asc ''Status'' \<mapsto> CStr (asc ''Paused''), key_channel_id \<mapsto> CStr (asc ''C2''),
                  key_project_name \<mapsto> CStr (asc ''Beta'')]"

definition demo_messages :: "message list" where
  "demo_messages =
     [[asc ''user'' \<mapsto> asc ''U3'', asc ''ts'' \<mapsto> [3]],
      [asc ''user'' \<mapsto> asc ''U2'', asc ''ts'' \<mapsto> [2], asc ''text'' \<mapsto> asc ''bye''],
      [asc ''ts'' \<mapsto> [1], asc ''text'' \<mapsto> asc ''hi'']]"

definition demo_silent :: "message list" where
  "demo_silent = [[asc ''user'' \<mapsto> asc ''U3''], [asc ''user'' \<mapsto> asc ''U2'', asc ''text'' \<mapsto> []]]"

text \<open>The \<open>ts\<close> field of a demo message, read as a number.\<close>

definition demo_ts :: "message \<Rightarrow> nat" where
  "demo_ts m = sum_list (dict_get m (asc ''ts'') [])"

definition demo_error :: py_exception where
  "demo_error = PyExc ''RuntimeError'' (asc ''service unavailable'')"

definition demo_world :: world where
  "demo_world =
     \<lparr>now = (\<lambda>_. demo_now),
      get_all_records = (\<lambda>_. Inr [demo_paused, demo_config]),
      conversations_history = (\<lambda>_ _ _ _. Inr demo_messages),
      generate_content = (\<lambda>_ _. Inr (asc ''summary'')),
      documents_create = (\<lambda>_ _. Inr (asc ''doc1'')),
      documents_batchUpdate = (\<lambda>_ _ _. Inr ()),
      files_get = (\<lambda>_ _. Inr [asc ''root'']),
      files_update = (\<lambda>_ _ _ _. Inr ()),
      DRIVE_FOLDER_ID = asc ''folder''\<rparr>"

text \<open>The same world with a failing Slack, a failing Gemini, and a channel of records without text.\<close>

definition demo_world_slack_down :: world where
  "demo_world_slack_down = demo_world\<lparr>conversations_history := (\<lambda>_ _ _ _. Inl demo_error)\<rparr>"

definition demo_world_gemini_down :: world where
  "demo_world_gemini_down = demo_world\<lparr>generate_content := (\<lambda>_ _. Inl demo_error)\<rparr>"

definition demo_world_silent :: world where
  "demo_world_silent = demo_world\<lparr>conversations_history := (\<lambda>_ _ _ _. Inr demo_silent)\<rparr>"

text \<open>The same world with a Slack that answers oldest first.\<close>

definition demo_oldest_first :: "message list" where
  "demo_oldest_first =
     [[asc ''user'' \<mapsto> asc ''U1'', asc ''ts'' \<mapsto> [1], asc ''text'' \<mapsto> asc ''hi''],
      [asc ''user'' \<mapsto> asc ''U2'', asc ''ts'' \<mapsto> [2], asc ''text'' \<mapsto> asc ''bye'']]"

definition demo_world_oldest_first :: world where
  "demo_world_oldest_first = demo_world\<lparr>conversations_history := (\<lambda>_ _ _ _. Inr demo_oldest_first)\<rparr>"

text \<open>The same world with an empty channel.\<close>

definition demo_world_quiet :: world where
  "demo_world_quiet = demo_world\<lparr>conversations_history := (\<lambda>_ _ _ _. Inr [])\<rparr>"

section \<open>Facts about the concrete world and about traces\<close>

lemma key_neq [simp]:
  "key_project_name \<noteq> key_channel_id" "key_channel_id \<noteq> key_project_name"
  "key_project_name \<noteq> asc ''Status''" "key_channel_id \<noteq> asc ''Status''"
  "asc ''Status'' \<noteq> key_project_name" "asc ''Status'' \<noteq> key_channel_id"
  by (simp_all add: key_project_name_def key_channel_id_def asc_def)

lemma demo_config_keys [simp]:
  "demo_config key_project_name = Some (CStr (asc ''Alpha''))"
  "demo_config key_channel_id = Some (CStr (asc ''C1''))"
  "demo_config (asc ''Status'') = Some (CStr (asc ''Active''))"
  by (simp_all add: demo_config_def)

lemma sub_one_day_demo [simp]: "sub_one_day demo_now = Inr demo_yesterday"
  by (simp add: sub_one_day_def demo_now_def demo_yesterday_def)

lemma demo_world_fields [simp]:
  "now demo_world n = demo_now"
  "get_all_records demo_world n = Inr [demo_paused, demo_config]"
  "conversations_history demo_world n c a b = Inr demo_messages"
  "generate_content demo_world n p = Inr (asc ''summary'')"
  "documents_create demo_world n t = Inr (asc ''doc1'')"
  by (simp_all add: demo_world_def)

lemma demo_variant_fields [simp]:
  "now demo_world_slack_down n = demo_now"
  "conversations_history demo_world_slack_down n c a b = Inl demo_error"
  "now demo_world_gemini_down n = demo_now"
  "conversations_history demo_world_gemini_down n c a b = Inr demo_messages"
  "generate_content demo_world_gemini_down n p = Inl demo_error"
  "get_all_records demo_world_gemini_down n = Inr [demo_paused, demo_config]"
  "now demo_world_silent n = demo_now"
  "conversations_history demo_world_silent n c a b = Inr demo_silent"
  "now demo_world_quiet n = demo_now"
  "conversations_history demo_world_quiet n c a b = Inr []"
  by (simp_all add: demo_world_slack_down_def demo_world_gemini_down_def demo_world_silent_def
        demo_world_quiet_def demo_world_def)

lemma docs_created_append [simp]: "docs_created (xs @ ys) = docs_created xs @ docs_created ys"
  by (induction xs rule: docs_created.induct) simp_all

lemma publisher_ops_append [simp]: "publisher_ops (xs @ ys) = publisher_ops xs @ publisher_ops ys"
  by (simp add: publisher_ops_def)

lemma inference_calls_append [simp]:
  "inference_calls (xs @ ys) = inference_calls xs @ inference_calls ys"
  by (simp add: inference_calls_def)

lemma comprehension_filter: "[r. r \<leftarrow> rows, P r] = filter P rows"
  by (induction rows) simp_all

lemma collect_text_data_eq:
  "collect_text_data ms acc = acc @ map format_line (filter has_text ms)"
  by (induction ms arbitrary: acc) (simp_all add: Let_def has_text_def format_line_def)

lemma no_text_filter:
  "\<forall>m\<in>set ms. dict_get m (asc ''text'') [] = [] \<Longrightarrow> filter has_text ms = []"
  by (induction ms) (simp_all add: has_text_def)

lemma rev_sorted_wrt:
  "sorted_wrt (\<lambda>a b. f b \<le> f a) ms
   \<Longrightarrow> sorted_wrt (\<lambda>a b. f a \<le> (f b :: 'a :: linorder)) (filter P (rev ms))"
  by (simp add: sorted_wrt_filter sorted_wrt_rev)

text \<open>The fetch and the summarizer extend the trace, and not by a call to the document or storage service.\<close>

lemma get_yesterday_messages_trace:
  "\<exists>ev. snd (get_yesterday_messages w channel_id tr) = tr @ ev
        \<and> docs_created ev = [] \<and> publisher_ops ev = [] \<and> inference_calls ev = []"
  by (simp add: get_yesterday_messages_def Let_def publisher_ops_def inference_calls_def
        split: sum.splits)

lemma summarize_text_trace:
  "\<exists>ev. snd (summarize_text w txt project_name tr) = tr @ ev
        \<and> docs_created ev = [] \<and> publisher_ops ev = []"
  by (simp add: summarize_text_def Let_def publisher_ops_def split: sum.splits option.splits)

lemma create_google_doc_docs_created:
  assumes "sub_one_day (now w (length tr)) = Inr yesterday"
  shows "docs_created (snd (create_google_doc w project_name summary tr))
           = docs_created tr
             @ [strftime_Ymd yesterday @ asc ''_'' @ fstr project_name @ asc ''_'' @ title_suffix]"
  using assms by (simp add: create_google_doc_def Let_def split: sum.splits)

text \<open>The two outcomes of the request inside the \<open>try\<close>.\<close>

lemma get_yesterday_messages_error:
  assumes "sub_one_day (now w (length tr)) = Inr yesterday"
    and "conversations_history w (length tr) channel_id
           (window_oldest yesterday) (window_latest yesterday) = Inl e"
  shows "get_yesterday_messages w channel_id tr
           = (Inr None,
              tr @ [SlackConversationsHistory channel_id (window_oldest yesterday) (window_latest yesterday),
                    Print (asc ''Error fetching Slack: '' @ exc_str e)])"
  using assms by (simp add: get_yesterday_messages_def Let_def window_oldest_def window_latest_def)

lemma get_yesterday_messages_answer:
  assumes "sub_one_day (now w (length tr)) = Inr yesterday"
    and "conversations_history w (length tr) channel_id
           (window_oldest yesterday) (window_latest yesterday) = Inr messages"
  shows "get_yesterday_messages w channel_id tr
           = (Inr (if messages = [] then None else Some (transcript_spec messages)),
              tr @ [SlackConversationsHistory channel_id (window_oldest yesterday) (window_latest yesterday)])"
  using assms
  by (simp add: get_yesterday_messages_def Let_def window_oldest_def window_latest_def
        collect_text_data_eq transcript_spec_def)

text \<open>The loop body once the two columns are read and the fetch has returned.\<close>

lemma main_loop_body_unfold:
  assumes "config key_project_name = Some project_name" "config key_channel_id = Some channel_id"
    and "get_yesterday_messages w channel_id (tr @ [processing_line project_name]) = (Inr txt, tr2)"
  shows "main_loop_body w config tr =
           (if truthy txt then
              (case summarize_text w txt project_name (tr2 @ [summarizing_line]) of
                 (Inl e, tr4) \<Rightarrow> (Inl e, tr4)
               | (Inr summary, tr4) \<Rightarrow> create_google_doc w project_name summary tr4)
            else (Inr (), tr2 @ [no_messages_line]))"
  using assms
  by (simp add: main_loop_body_def Let_def processing_line_def summarizing_line_def
        no_messages_line_def)

section \<open>The summarizer\<close>

text \<open>
  C8. Called with an absent or otherwise falsy transcript (\<open>None\<close> or the empty
  string), \<open>summarize_text\<close> returns the fixed placeholder and leaves the trace as it
  was: it has no effect at all, so it makes no call to the inference service.
\<close>

theorem summarize_text_absent:
  assumes "\<not> truthy txt"
  shows "summarize_text w txt project_name tr = (Inr placeholder, tr)
         \<and> inference_calls (snd (summarize_text w txt project_name tr)) = inference_calls tr"
  using assms by (simp add: summarize_text_def truthy_def split: option.splits)

theorem summarize_text_absent_witness:
  "\<not> truthy None
   \<and> summarize_text demo_world_gemini_down None (CStr (asc ''Alpha'')) [] = (Inr placeholder, [])
   \<and> \<not> truthy (Some [])
   \<and> summarize_text demo_world_gemini_down (Some []) (CStr (asc ''Alpha'')) [] = (Inr placeholder, [])"
  using summarize_text_absent [of None demo_world_gemini_down "CStr (asc ''Alpha'')" "[]"]
    summarize_text_absent [of "Some []" demo_world_gemini_down "CStr (asc ''Alpha'')" "[]"]
  by (simp add: truthy_def)

section \<open>The configuration source\<close>

text \<open>
  C5. Whatever rows the sheet holds, \<open>get_configs\<close> returns exactly the rows whose
  \<open>Status\<close> field equals \<open>'Active'\<close>: the list filtered by that test, which is a
  subsequence of the rows (same order, every row as it was read).
\<close>

theorem get_configs_active_rows:
  assumes "get_all_records w (Suc (length tr)) = Inr rows"
  shows "fst (get_configs w tr) = Inr (filter is_active rows)
         \<and> subseq (filter is_active rows) rows"
  using assms
  by (simp add: get_configs_def Let_def comprehension_filter is_active_def [abs_def])

theorem get_configs_active_rows_witness:
  "get_all_records demo_world (Suc (length [])) = Inr [demo_paused, demo_config]
   \<and> fst (get_configs demo_world []) = Inr [demo_config]"
proof -
  have a: "get_all_records demo_world (Suc (length [])) = Inr [demo_paused, demo_config]"
    by simp
  have "is_active demo_config"
    by (simp add: is_active_def)
  moreover have "asc ''Paused'' \<noteq> asc ''Active''"
    by (simp add: asc_def)
  then have "\<not> is_active demo_paused"
    by (simp add: is_active_def demo_paused_def)
  ultimately show ?thesis
    using get_configs_active_rows [OF a] a by simp
qed

section \<open>The channel history fetcher\<close>

lemma demo_transcript:
  "transcript_spec demo_messages = asc ''User(Unknown): hi'' @ [10] @ asc ''User(U2): bye''"
  by (simp add: transcript_spec_def demo_messages_def has_text_def format_line_def dict_get_def
        asc_def)

lemma demo_newest_first: "sorted_wrt (\<lambda>a b. demo_ts b \<le> demo_ts a) demo_messages"
  by (simp add: demo_messages_def demo_ts_def dict_get_def asc_def)

lemma demo_fetch:
  "get_yesterday_messages demo_world_gemini_down (CStr (asc ''C1'')) tr
     = (Inr (Some (asc ''User(Unknown): hi'' @ [10] @ asc ''User(U2): bye'')),
        tr @ [SlackConversationsHistory (CStr (asc ''C1''))
                (window_oldest demo_yesterday) (window_latest demo_yesterday)])"
proof -
  have "demo_messages \<noteq> []"
    by (simp add: demo_messages_def)
  then show ?thesis
    using get_yesterday_messages_answer [where w = demo_world_gemini_down and tr = tr
        and yesterday = demo_yesterday and messages = demo_messages and channel_id = "CStr (asc ''C1'')"]
    by (simp add: demo_transcript)
qed

text \<open>
  C3, as the code has it. When the request answers with a list of records, the transcript is the
  specification's: the records in the reverse of the answer's order, those with a
  non-empty text only, each as \<open>User(<id>): <text>\<close>, joined by newlines; and for an
  answer with no record the function returns \<open>None\<close>. The reversal puts the kept
  records oldest first whenever the answer is newest first, for any reading \<open>ts\<close> of a
  record's time.
\<close>

theorem transcript_of_answer:
  assumes "sub_one_day (now w (length tr)) = Inr yesterday"
    and "conversations_history w (length tr) channel_id
           (window_oldest yesterday) (window_latest yesterday) = Inr messages"
  shows "fst (get_yesterday_messages w channel_id tr)
           = Inr (if messages = [] then None else Some (transcript_spec messages))
         \<and> (sorted_wrt (\<lambda>a b. ts b \<le> ts a) messages
              \<longrightarrow> sorted_wrt (\<lambda>a b. ts a \<le> (ts b :: nat)) (filter has_text (rev messages)))"
  using get_yesterday_messages_answer [OF assms] by (simp add: rev_sorted_wrt)

theorem transcript_of_answer_witness:
  "sub_one_day (now demo_world (length [])) = Inr demo_yesterday
   \<and> conversations_history demo_world (length []) (CStr (asc ''C1''))
        (window_oldest demo_yesterday) (window_latest demo_yesterday) = Inr demo_messages
   \<and> fst (get_yesterday_messages demo_world (CStr (asc ''C1'')) [])
       = Inr (Some (asc ''User(Unknown): hi'' @ [10] @ asc ''User(U2): bye''))
   \<and> sorted_wrt (\<lambda>a b. demo_ts b \<le> demo_ts a) demo_messages
   \<and> sorted_wrt (\<lambda>a b. demo_ts a \<le> demo_ts b) (filter has_text (rev demo_messages))"
proof -
  have y: "sub_one_day (now demo_world (length [])) = Inr demo_yesterday"
    by simp
  have a: "conversations_history demo_world (length []) (CStr (asc ''C1''))
        (window_oldest demo_yesterday) (window_latest demo_yesterday) = Inr demo_messages"
    by simp
  have n: "demo_messages \<noteq> []"
    by (simp add: demo_messages_def)
  show ?thesis
    using transcript_of_answer [OF y a, of demo_ts] y a n demo_transcript demo_newest_first
    by simp
qed

lemma demo_oldest_first_fields [simp]:
  "now demo_world_oldest_first n = demo_now"
  "conversations_history demo_world_oldest_first n c a b = Inr demo_oldest_first"
  by (simp_all add: demo_world_oldest_first_def demo_world_def)

text \<open>
  C3 as stated (the transcript is oldest first for every non-empty answer) fails
  when the service answers oldest first: \<open>hi\<close> of \<open>U1\<close> at time 1, then \<open>bye\<close> of \<open>U2\<close>
  at time 2. The code reverses and does not sort, so the transcript has \<open>bye\<close> before
  \<open>hi\<close>, newest first.
\<close>

theorem transcript_order_counterexample:
  "conversations_history demo_world_oldest_first (length []) (CStr (asc ''C1''))
      (window_oldest demo_yesterday) (window_latest demo_yesterday) = Inr demo_oldest_first
   \<and> map demo_ts demo_oldest_first = [1, 2]
   \<and> fst (get_yesterday_messages demo_world_oldest_first (CStr (asc ''C1'')) [])
       = Inr (Some (asc ''User(U2): bye'' @ [10] @ asc ''User(U1): hi''))"
  by (simp add: get_yesterday_messages_def Let_def demo_oldest_first_def demo_ts_def dict_get_def
        asc_def)

section \<open>The prompt\<close>

text \<open>
  C4. For a non-empty transcript \<open>s\<close>, the one effect of \<open>summarize_text\<close> is the
  inference call, and the text its prompt embeds between the fixed parts is
  \<open>take 20000 s\<close>: a prefix of \<open>s\<close> of at most 20,000 characters, \<open>s\<close> itself when \<open>s\<close>
  has at most 20,000 characters and exactly 20,000 characters otherwise.
\<close>

theorem summarize_text_prompt:
  assumes "s \<noteq> []"
  shows "snd (summarize_text w (Some s) project_name tr)
           = tr @ [GeminiGenerateContent
                     (prompt_head @ fstr project_name @ prompt_mid @ take 20000 s @ prompt_tail)]
         \<and> prefix (take 20000 s) s
         \<and> length (take 20000 s) \<le> 20000
         \<and> (length s \<le> 20000 \<longrightarrow> take 20000 s = s)
         \<and> (20000 < length s \<longrightarrow> length (take 20000 s) = 20000)"
  using assms by (simp add: summarize_text_def Let_def take_is_prefix split: sum.splits)

theorem summarize_text_prompt_witness:
  "asc ''hi'' \<noteq> []
   \<and> snd (summarize_text demo_world (Some (asc ''hi'')) (CStr (asc ''Alpha'')) [])
       = [GeminiGenerateContent (prompt_head @ asc ''Alpha'' @ prompt_mid @ asc ''hi'' @ prompt_tail)]
   \<and> replicate 20001 (97 :: nat) \<noteq> []
   \<and> snd (summarize_text demo_world (Some (replicate 20001 97)) (CStr (asc ''Alpha'')) [])
       = [GeminiGenerateContent
            (prompt_head @ asc ''Alpha'' @ prompt_mid @ replicate 20000 97 @ prompt_tail)]"
proof -
  have a: "asc ''hi'' \<noteq> []"
    by (simp add: asc_def)
  have b: "replicate 20001 (97 :: nat) \<noteq> []"
    by simp
  have l: "length (asc ''hi'') \<le> 20000"
    by (simp add: asc_def)
  show ?thesis
    using summarize_text_prompt [OF a, of demo_world "CStr (asc ''Alpha'')" "[]"]
      summarize_text_prompt [OF b, of demo_world "CStr (asc ''Alpha'')" "[]"] a l
    by simp
qed

section \<open>The document publisher\<close>













lemma strftime_Ymd_year_999:
  "strftime_Ymd \<lparr>year = 999, month = 5, day = 1, hour = 0, minute = 0, second = 0, microsecond = 0\<rparr>
     = asc ''999-05-01''"
  by (simp add: strftime_Ymd_def digits2_def asc_def show_nat.simps)




section \<open>The orchestrator\<close>

text \<open>
  C6. When the history request raises, \<open>get_yesterday_messages\<close> prints the error and
  returns \<open>None\<close>; nothing propagates. The loop body then takes the branch of a project
  without messages (it prints \<open>No messages.\<close> and returns normally), and the loop goes
  on with the remaining configs.
\<close>

theorem slack_error_swallowed:
  assumes "config key_project_name = Some project_name" and "config key_channel_id = Some channel_id"
    and "tr1 = tr @ [processing_line project_name]"
    and "sub_one_day (now w (length tr1)) = Inr yesterday"
    and "conversations_history w (length tr1) channel_id
           (window_oldest yesterday) (window_latest yesterday) = Inl e"
  shows "get_yesterday_messages w channel_id tr1
           = (Inr None,
              tr1 @ [SlackConversationsHistory channel_id (window_oldest yesterday) (window_latest yesterday),
                     Print (asc ''Error fetching Slack: '' @ exc_str e)])
         \<and> main_loop_body w config tr
           = (Inr (),
              tr1 @ [SlackConversationsHistory channel_id (window_oldest yesterday) (window_latest yesterday),
                     Print (asc ''Error fetching Slack: '' @ exc_str e), no_messages_line])
         \<and> main_loop w (config # configs) tr
           = main_loop w configs
               (tr1 @ [SlackConversationsHistory channel_id (window_oldest yesterday) (window_latest yesterday),
                       Print (asc ''Error fetching Slack: '' @ exc_str e), no_messages_line])"
proof -
  let ?tr2 = "tr1 @ [SlackConversationsHistory channel_id (window_oldest yesterday) (window_latest yesterday),
                     Print (asc ''Error fetching Slack: '' @ exc_str e)]"
  have f: "get_yesterday_messages w channel_id tr1 = (Inr None, ?tr2)"
    using assms(4,5) by (rule get_yesterday_messages_error)
  have b: "main_loop_body w config tr = (Inr (), ?tr2 @ [no_messages_line])"
    using main_loop_body_unfold [OF assms(1,2) f [unfolded assms(3)]]
    by (simp add: truthy_def assms(3))
  from f b show ?thesis by simp
qed

theorem slack_error_swallowed_witness:
  "demo_config key_project_name = Some (CStr (asc ''Alpha''))
   \<and> demo_config key_channel_id = Some (CStr (asc ''C1''))
   \<and> sub_one_day (now demo_world_slack_down (length [processing_line (CStr (asc ''Alpha''))]))
       = Inr demo_yesterday
   \<and> conversations_history demo_world_slack_down (length [processing_line (CStr (asc ''Alpha''))])
        (CStr (asc ''C1'')) (window_oldest demo_yesterday) (window_latest demo_yesterday)
       = Inl demo_error
   \<and> main_loop demo_world_slack_down [demo_config, demo_config] []
       = (Inr (),
          [processing_line (CStr (asc ''Alpha'')),
           SlackConversationsHistory (CStr (asc ''C1'')) (window_oldest demo_yesterday) (window_latest demo_yesterday),
           Print (asc ''Error fetching Slack: service unavailable''), no_messages_line,
           processing_line (CStr (asc ''Alpha'')),
           SlackConversationsHistory (CStr (asc ''C1'')) (window_oldest demo_yesterday) (window_latest demo_yesterday),
           Print (asc ''Error fetching Slack: service unavailable''), no_messages_line])"
proof -
  let ?p = "processing_line (CStr (asc ''Alpha''))"
  have m: "asc ''Error fetching Slack: '' @ exc_str demo_error
             = asc ''Error fetching Slack: service unavailable''"
    by (simp add: demo_error_def asc_def)
  have s: "main_loop demo_world_slack_down (demo_config # rest) tr
           = main_loop demo_world_slack_down rest
               (tr @ [?p, SlackConversationsHistory (CStr (asc ''C1''))
                            (window_oldest demo_yesterday) (window_latest demo_yesterday),
                      Print (asc ''Error fetching Slack: service unavailable''), no_messages_line])"
    for rest tr
    using slack_error_swallowed [where config = demo_config and project_name = "CStr (asc ''Alpha'')"
        and channel_id = "CStr (asc ''C1'')" and tr = tr and ?tr1.0 = "tr @ [?p]"
        and w = demo_world_slack_down and yesterday = demo_yesterday and e = demo_error
        and configs = rest]
    by (simp add: m)
  show ?thesis
    by (simp add: s del: main_loop.simps(2))
qed

text \<open>
  C7. When the inference call fails for a project whose transcript is non-empty, the
  exception leaves \<open>summarize_text\<close> and the loop: the run ends with that exception
  right after the inference call, whatever configs remain, and it has created no
  document and called neither the document nor the storage service for this project.
\<close>

theorem inference_error_halts_run:
  assumes "config key_project_name = Some project_name" and "config key_channel_id = Some channel_id"
    and "get_yesterday_messages w channel_id (tr @ [processing_line project_name]) = (Inr (Some s), tr2)"
    and "s \<noteq> []"
    and "generate_content w (Suc (length tr2)) (prompt_of project_name s) = Inl e"
  shows "summarize_text w (Some s) project_name (tr2 @ [summarizing_line])
           = (Inl e, tr2 @ [summarizing_line, GeminiGenerateContent (prompt_of project_name s)])
         \<and> main_loop w (config # configs) tr
           = (Inl e, tr2 @ [summarizing_line, GeminiGenerateContent (prompt_of project_name s)])
         \<and> docs_created (snd (main_loop w (config # configs) tr)) = docs_created tr
         \<and> publisher_ops (snd (main_loop w (config # configs) tr)) = publisher_ops tr"
proof -
  let ?tr4 = "tr2 @ [summarizing_line, GeminiGenerateContent (prompt_of project_name s)]"
  have s: "summarize_text w (Some s) project_name (tr2 @ [summarizing_line]) = (Inl e, ?tr4)"
    using assms(4,5) by (simp add: summarize_text_def Let_def prompt_of_def)
  have b: "main_loop_body w config tr = (Inl e, ?tr4)"
    using main_loop_body_unfold [OF assms(1,2,3)] assms(4) s by (simp add: truthy_def)
  then have l: "main_loop w (config # configs) tr = (Inl e, ?tr4)"
    by simp
  obtain ev where ev: "tr2 = (tr @ [processing_line project_name]) @ ev"
      "docs_created ev = []" "publisher_ops ev = []"
    using get_yesterday_messages_trace [of w channel_id "tr @ [processing_line project_name]"] assms(3)
    by auto
  have "docs_created ?tr4 = docs_created tr" "publisher_ops ?tr4 = publisher_ops tr"
    using ev by (simp_all add: processing_line_def summarizing_line_def publisher_ops_def)
  with s l show ?thesis by simp
qed

theorem inference_error_halts_run_witness:
  "demo_config key_project_name = Some (CStr (asc ''Alpha''))
   \<and> demo_config key_channel_id = Some (CStr (asc ''C1''))
   \<and> get_yesterday_messages demo_world_gemini_down (CStr (asc ''C1'')) ([] @ [processing_line (CStr (asc ''Alpha''))])
       = (Inr (Some (asc ''User(Unknown): hi'' @ [10] @ asc ''User(U2): bye'')),
          [processing_line (CStr (asc ''Alpha'')),
           SlackConversationsHistory (CStr (asc ''C1'')) (window_oldest demo_yesterday) (window_latest demo_yesterday)])
   \<and> asc ''User(Unknown): hi'' @ [10] @ asc ''User(U2): bye'' \<noteq> []
   \<and> generate_content demo_world_gemini_down (Suc 2)
        (prompt_of (CStr (asc ''Alpha'')) (asc ''User(Unknown): hi'' @ [10] @ asc ''User(U2): bye''))
       = Inl demo_error
   \<and> main_loop demo_world_gemini_down [demo_config, demo_config] []
       = (Inl demo_error,
          [processing_line (CStr (asc ''Alpha'')),
           SlackConversationsHistory (CStr (asc ''C1'')) (window_oldest demo_yesterday) (window_latest demo_yesterday),
           summarizing_line,
           GeminiGenerateContent
             (prompt_of (CStr (asc ''Alpha'')) (asc ''User(Unknown): hi'' @ [10] @ asc ''User(U2): bye''))])
   \<and> docs_created (snd (main_loop demo_world_gemini_down [demo_config, demo_config] [])) = []"
proof -
  let ?t = "asc ''User(Unknown): hi'' @ [10] @ asc ''User(U2): bye''"
  let ?tr2 = "[processing_line (CStr (asc ''Alpha'')),
           SlackConversationsHistory (CStr (asc ''C1'')) (window_oldest demo_yesterday) (window_latest demo_yesterday)]"
  have f: "get_yesterday_messages demo_world_gemini_down (CStr (asc ''C1''))
             ([] @ [processing_line (CStr (asc ''Alpha''))]) = (Inr (Some ?t), ?tr2)"
    by (simp add: demo_fetch)
  have n: "?t \<noteq> []"
    by simp
  have g: "generate_content demo_world_gemini_down (Suc (length ?tr2)) (prompt_of (CStr (asc ''Alpha'')) ?t)
             = Inl demo_error"
    by simp
  show ?thesis
    using inference_error_halts_run [OF demo_config_keys(1) demo_config_keys(2) f n g, of "[demo_config]"] f
    by (simp add: processing_line_def summarizing_line_def del: main_loop.simps(2))
qed

text \<open>
  C10. When the answer is a non-empty list of records none of which has a text,
  \<open>get_yesterday_messages\<close> returns the empty string, not \<open>None\<close>, and the loop body
  does with it what it does with \<open>None\<close>: it prints \<open>No messages.\<close> and returns, with
  no inference call and no call to the document or storage service.
\<close>

theorem empty_transcript_skipped:
  assumes "config key_project_name = Some project_name" and "config key_channel_id = Some channel_id"
    and "tr1 = tr @ [processing_line project_name]"
    and "sub_one_day (now w (length tr1)) = Inr yesterday"
    and "conversations_history w (length tr1) channel_id
           (window_oldest yesterday) (window_latest yesterday) = Inr messages"
    and "messages \<noteq> []"
    and "\<forall>m\<in>set messages. dict_get m (asc ''text'') [] = []"
  shows "get_yesterday_messages w channel_id tr1
           = (Inr (Some []),
              tr1 @ [SlackConversationsHistory channel_id (window_oldest yesterday) (window_latest yesterday)])
         \<and> main_loop_body w config tr
           = (Inr (),
              tr1 @ [SlackConversationsHistory channel_id (window_oldest yesterday) (window_latest yesterday),
                     no_messages_line])
         \<and> inference_calls (snd (main_loop_body w config tr)) = inference_calls tr
         \<and> publisher_ops (snd (main_loop_body w config tr)) = publisher_ops tr"
proof -
  let ?tr2 = "tr1 @ [SlackConversationsHistory channel_id (window_oldest yesterday) (window_latest yesterday)]"
  have "filter has_text (rev messages) = []"
    using assms(7) by (intro no_text_filter) simp
  then have "transcript_spec messages = []"
    by (simp add: transcript_spec_def)
  with get_yesterday_messages_answer [OF assms(4,5)] assms(6)
  have f: "get_yesterday_messages w channel_id tr1 = (Inr (Some []), ?tr2)"
    by simp
  have b: "main_loop_body w config tr = (Inr (), ?tr2 @ [no_messages_line])"
    using main_loop_body_unfold [OF assms(1,2) f [unfolded assms(3)]]
    by (simp add: truthy_def assms(3))
  have "inference_calls (?tr2 @ [no_messages_line]) = inference_calls tr"
       "publisher_ops (?tr2 @ [no_messages_line]) = publisher_ops tr"
    by (simp_all add: assms(3) processing_line_def no_messages_line_def
          inference_calls_def publisher_ops_def)
  with f b show ?thesis by simp
qed

theorem empty_transcript_skipped_witness:
  "demo_config key_project_name = Some (CStr (asc ''Alpha''))
   \<and> demo_config key_channel_id = Some (CStr (asc ''C1''))
   \<and> sub_one_day (now demo_world_silent (length [processing_line (CStr (asc ''Alpha''))]))
       = Inr demo_yesterday
   \<and> conversations_history demo_world_silent (length [processing_line (CStr (asc ''Alpha''))])
        (CStr (asc ''C1'')) (window_oldest demo_yesterday) (window_latest demo_yesterday)
       = Inr demo_silent
   \<and> demo_silent \<noteq> []
   \<and> list_all (\<lambda>m. dict_get m (asc ''text'') [] = []) demo_silent
   \<and> get_yesterday_messages demo_world_silent (CStr (asc ''C1'')) [processing_line (CStr (asc ''Alpha''))]
       = (Inr (Some []),
          [processing_line (CStr (asc ''Alpha'')),
           SlackConversationsHistory (CStr (asc ''C1'')) (window_oldest demo_yesterday) (window_latest demo_yesterday)])
   \<and> main_loop_body demo_world_silent demo_config []
       = (Inr (),
          [processing_line (CStr (asc ''Alpha'')),
           SlackConversationsHistory (CStr (asc ''C1'')) (window_oldest demo_yesterday) (window_latest demo_yesterday),
           no_messages_line])"
proof -
  let ?p = "processing_line (CStr (asc ''Alpha''))"
  have y: "sub_one_day (now demo_world_silent (length [?p])) = Inr demo_yesterday"
    by simp
  have a: "conversations_history demo_world_silent (length [?p]) (CStr (asc ''C1''))
        (window_oldest demo_yesterday) (window_latest demo_yesterday) = Inr demo_silent"
    by simp
  have n: "demo_silent \<noteq> []"
    by (simp add: demo_silent_def)
  have e: "\<forall>m\<in>set demo_silent. dict_get m (asc ''text'') [] = []"
    by (simp add: demo_silent_def dict_get_def asc_def)
  have t: "[?p] = [] @ [?p]"
    by simp
  show ?thesis
    using empty_transcript_skipped [OF demo_config_keys(1) demo_config_keys(2) t y a n e] y a n e
    by (simp add: list_all_iff)
qed

lemma sub_one_day_Inr: "clock_ok w \<Longrightarrow> \<exists>y. sub_one_day (now w n) = Inr y"
  by (simp add: clock_ok_def)

lemma clock_ok_demo: "clock_ok demo_world" "clock_ok demo_world_gemini_down" "clock_ok demo_world_quiet"
  by (simp_all add: clock_ok_def)

text \<open>
  C1, as the code has it. Let the clock never read 0001-01-01, and let the fetch for
  a config return a transcript. Then the loop body issues the create call for a
  document exactly when the transcript is truthy and the inference call for it
  returns a summary; and when the transcript is \<open>None\<close> or empty the body makes no
  call to the document or storage service.
\<close>

theorem document_iff_summary:
  assumes "clock_ok w"
    and "config key_project_name = Some project_name" and "config key_channel_id = Some channel_id"
    and "get_yesterday_messages w channel_id (tr @ [processing_line project_name]) = (Inr txt, tr2)"
  shows "(docs_created (snd (main_loop_body w config tr)) \<noteq> docs_created tr)
           = (truthy txt
              \<and> (\<exists>summary. fst (summarize_text w txt project_name (tr2 @ [summarizing_line])) = Inr summary))
         \<and> (\<not> truthy txt \<longrightarrow> publisher_ops (snd (main_loop_body w config tr)) = publisher_ops tr)"
proof -
  obtain ev where ev: "tr2 = (tr @ [processing_line project_name]) @ ev"
      "docs_created ev = []" "publisher_ops ev = []"
    using get_yesterday_messages_trace [of w channel_id "tr @ [processing_line project_name]"] assms(4)
    by auto
  have d2: "docs_created tr2 = docs_created tr" and p2: "publisher_ops tr2 = publisher_ops tr"
    using ev by (simp_all add: processing_line_def publisher_ops_def)
  note b = main_loop_body_unfold [OF assms(2,3,4)]
  show ?thesis
  proof (cases "truthy txt")
    case False
    with b d2 p2 show ?thesis
      by (simp add: no_messages_line_def publisher_ops_def)
  next
    case True
    obtain r tr4 where s: "summarize_text w txt project_name (tr2 @ [summarizing_line]) = (r, tr4)"
      by (cases "summarize_text w txt project_name (tr2 @ [summarizing_line])")
    obtain ev' where "tr4 = (tr2 @ [summarizing_line]) @ ev'" "docs_created ev' = []"
      using summarize_text_trace [of w "txt" project_name "tr2 @ [summarizing_line]"] s by auto
    then have d4: "docs_created tr4 = docs_created tr"
      using d2 by (simp add: summarizing_line_def)
    show ?thesis
    proof (cases r)
      case (Inl e)
      with b s True d4 show ?thesis by simp
    next
      case (Inr summary)
      obtain y where "sub_one_day (now w (length tr4)) = Inr y"
        using sub_one_day_Inr [OF assms(1)] by blast
      from create_google_doc_docs_created [OF this, of project_name summary]
      have "docs_created (snd (create_google_doc w project_name summary tr4)) \<noteq> docs_created tr"
        using d4 by simp
      with Inr b s True show ?thesis by simp
    qed
  qed
qed

theorem document_iff_summary_witness:
  "clock_ok demo_world
   \<and> demo_config key_project_name = Some (CStr (asc ''Alpha''))
   \<and> demo_config key_channel_id = Some (CStr (asc ''C1''))
   \<and> fst (get_yesterday_messages demo_world (CStr (asc ''C1'')) ([] @ [processing_line (CStr (asc ''Alpha''))]))
       = Inr (Some (asc ''User(Unknown): hi'' @ [10] @ asc ''User(U2): bye''))
   \<and> truthy (Some (asc ''User(Unknown): hi'' @ [10] @ asc ''User(U2): bye''))
   \<and> docs_created (snd (main_loop_body demo_world demo_config [])) \<noteq> docs_created []
   \<and> clock_ok demo_world_quiet
   \<and> fst (get_yesterday_messages demo_world_quiet (CStr (asc ''C1'')) ([] @ [processing_line (CStr (asc ''Alpha''))]))
       = Inr None
   \<and> \<not> truthy None
   \<and> docs_created (snd (main_loop_body demo_world_quiet demo_config [])) = docs_created []
   \<and> publisher_ops (snd (main_loop_body demo_world_quiet demo_config [])) = publisher_ops []"
proof -
  let ?t = "asc ''User(Unknown): hi'' @ [10] @ asc ''User(U2): bye''"
  let ?p = "processing_line (CStr (asc ''Alpha''))"
  let ?s = "SlackConversationsHistory (CStr (asc ''C1'')) (window_oldest demo_yesterday) (window_latest demo_yesterday)"
  have n: "demo_messages \<noteq> []"
    by (simp add: demo_messages_def)
  have f: "get_yesterday_messages demo_world (CStr (asc ''C1'')) ([] @ [?p]) = (Inr (Some ?t), [?p, ?s])"
    using get_yesterday_messages_answer [where w = demo_world and tr = "[?p]"
        and yesterday = demo_yesterday and messages = demo_messages and channel_id = "CStr (asc ''C1'')"] n
    by (simp add: demo_transcript)
  have q: "get_yesterday_messages demo_world_quiet (CStr (asc ''C1'')) ([] @ [?p]) = (Inr None, [?p, ?s])"
    using get_yesterday_messages_answer [where w = demo_world_quiet and tr = "[?p]"
        and yesterday = demo_yesterday and messages = "[]" and channel_id = "CStr (asc ''C1'')"]
    by simp
  have t: "truthy (Some ?t)" "\<not> truthy None"
    by (simp_all add: truthy_def)
  have g: "fst (summarize_text demo_world (Some ?t) (CStr (asc ''Alpha'')) ([?p, ?s] @ [summarizing_line]))
             = Inr (asc ''summary'')"
    by (simp add: summarize_text_def Let_def)
  show ?thesis
    using document_iff_summary [OF clock_ok_demo(1) demo_config_keys(1) demo_config_keys(2) f]
      document_iff_summary [OF clock_ok_demo(3) demo_config_keys(1) demo_config_keys(2) q]
      f q t g clock_ok_demo
    by simp
qed

text \<open>
  C1 as stated (a document is created if and only if the transcript is non-empty)
  fails in the world whose inference service is down: the transcript of the project
  is non-empty, and neither the loop body nor the whole run issues a create call.
\<close>

theorem document_iff_transcript_counterexample:
  "get_yesterday_messages demo_world_gemini_down (CStr (asc ''C1'')) [processing_line (CStr (asc ''Alpha''))]
     = (Inr (Some (asc ''User(Unknown): hi'' @ [10] @ asc ''User(U2): bye'')),
        [processing_line (CStr (asc ''Alpha'')),
         SlackConversationsHistory (CStr (asc ''C1'')) (window_oldest demo_yesterday) (window_latest demo_yesterday)])
   \<and> truthy (Some (asc ''User(Unknown): hi'' @ [10] @ asc ''User(U2): bye''))
   \<and> docs_created (snd (main_loop_body demo_world_gemini_down demo_config [])) = []
   \<and> docs_created (snd (main demo_world_gemini_down)) = []"
proof -
  let ?t = "asc ''User(Unknown): hi'' @ [10] @ asc ''User(U2): bye''"
  have f: "get_yesterday_messages demo_world_gemini_down (CStr (asc ''C1'')) (tr @ [processing_line (CStr (asc ''Alpha''))])
     = (Inr (Some ?t), tr @ [processing_line (CStr (asc ''Alpha'')),
         SlackConversationsHistory (CStr (asc ''C1'')) (window_oldest demo_yesterday) (window_latest demo_yesterday)])" for tr
    by (simp add: demo_fetch)
  have t: "truthy (Some ?t)"
    by (simp add: truthy_def)
  have b: "main_loop_body demo_world_gemini_down demo_config tr
             = (Inl demo_error,
                tr @ [processing_line (CStr (asc ''Alpha'')),
                      SlackConversationsHistory (CStr (asc ''C1''))
                        (window_oldest demo_yesterday) (window_latest demo_yesterday),
                      summarizing_line,
                      GeminiGenerateContent (prompt_of (CStr (asc ''Alpha'')) ?t)])" for tr
    using main_loop_body_unfold [OF demo_config_keys(1) demo_config_keys(2) f, of tr] t
    by (simp add: summarize_text_def Let_def prompt_of_def)
  have "is_active demo_config"
    by (simp add: is_active_def)
  moreover have "asc ''Paused'' \<noteq> asc ''Active''"
    by (simp add: asc_def)
  then have "\<not> is_active demo_paused"
    by (simp add: is_active_def demo_paused_def)
  ultimately have c: "get_configs demo_world_gemini_down []
      = (Inr [demo_config], [Print (asc ''Reading config from Google Sheet...''), SheetsGetAllRecords])"
    by (simp add: get_configs_def Let_def comprehension_filter is_active_def [abs_def])
  have m: "docs_created (snd (main demo_world_gemini_down)) = []"
    by (simp add: main_def c b processing_line_def summarizing_line_def)
  from f [of "[]"] t b [of "[]"] m show ?thesis
    by (simp add: processing_line_def summarizing_line_def)
qed

section \<open>The time window\<close>

lemma sub_one_day_time:
  "sub_one_day d = Inr y \<Longrightarrow>
   hour y = hour d \<and> minute y = minute d \<and> second y = second d \<and> microsecond y = microsecond d"
  by (auto simp: sub_one_day_def split: if_splits)

text \<open>
  Both bounds of every request keep the microsecond of the clock reading:
  \<open>replace(hour=.., minute=.., second=..)\<close> does not name it.
\<close>

lemma window_microsecond:
  assumes "sub_one_day (now w (length tr)) = Inr yesterday"
  shows "\<exists>ev. snd (get_yesterday_messages w channel_id tr)
               = tr @ SlackConversationsHistory channel_id (window_oldest yesterday) (window_latest yesterday) # ev"
    and "microsecond (window_oldest yesterday) = microsecond (now w (length tr))"
    and "microsecond (window_latest yesterday) = microsecond (now w (length tr))"
  using assms sub_one_day_time [OF assms]
  by (simp_all add: get_yesterday_messages_def Let_def window_oldest_def window_latest_def
        split: sum.splits)

text \<open>
  C2. Read at 2024-05-02 10:30:15.250000, the clock gives a request whose bounds are
  2024-05-01 00:00:00.250000 and 2024-05-01 23:59:59.250000: a quarter of a second
  after the start of the previous day and after its last full second, not 00:00:00
  and 23:59:59 exactly.
\<close>

theorem window_at_demo_now:
  "now demo_world (length [])
     = \<lparr>year = 2024, month = 5, day = 2, hour = 10, minute = 30, second = 15, microsecond = 250000\<rparr>
   \<and> snd (get_yesterday_messages demo_world (CStr (asc ''C1'')) [])
       = [SlackConversationsHistory (CStr (asc ''C1''))
            \<lparr>year = 2024, month = 5, day = 1, hour = 0, minute = 0, second = 0, microsecond = 250000\<rparr>
            \<lparr>year = 2024, month = 5, day = 1, hour = 23, minute = 59, second = 59, microsecond = 250000\<rparr>]
   \<and> snd (get_yesterday_messages demo_world (CStr (asc ''C1'')) [])
       \<noteq> [SlackConversationsHistory (CStr (asc ''C1''))
            \<lparr>year = 2024, month = 5, day = 1, hour = 0, minute = 0, second = 0, microsecond = 0\<rparr>
            \<lparr>year = 2024, month = 5, day = 1, hour = 23, minute = 59, second = 59, microsecond = 0\<rparr>]"
  by (simp add: get_yesterday_messages_def Let_def demo_now_def demo_yesterday_def
        sub_one_day_def demo_messages_def)

end
